theory Spec2Isabelle
  imports Complex_Main "HOL-Library.AList"
begin

section \<open>Values of the platform\<close>

text \<open>
  The server is TypeScript on Node. Text is modelled as \<open>string\<close>, one \<open>char\<close> per
  code unit. A value that \<^verbatim>\<open>JSON.parse\<close> returns is a \<open>json\<close>; an object keeps its own
  properties in insertion order, each key once (a repeated key keeps its last value).
  A number is kept by its exact value: the stream normaliser only asks whether it is zero.
  \<open>None\<close> of type \<open>json option\<close> stands for \<^verbatim>\<open>undefined\<close>.
\<close>

datatype json =
    JNull
  | JBool bool
  | JNum rat
  | JStr string
  | JArr "json list"
  | JObj "(string \<times> json) list"

text \<open>A thrown \<^verbatim>\<open>Error\<close> with its message.\<close>

datatype error = Error string

fun message :: "error \<Rightarrow> string" where
  "message (Error m) = m"

text \<open>\<^verbatim>\<open>if (v)\<close>: null, false, 0 and the empty string are falsy; objects and arrays are truthy.\<close>

fun truthy :: "json \<Rightarrow> bool" where
  "truthy JNull = False"
| "truthy (JBool b) = b"
| "truthy (JNum n) = (n \<noteq> 0)"
| "truthy (JStr s) = (s \<noteq> [])"
| "truthy (JArr xs) = True"
| "truthy (JObj kvs) = True"

text \<open>
  \<^verbatim>\<open>v.k\<close> on a value that is neither null nor undefined: only an object has the
  properties the normaliser reads; arrays, strings, numbers and booleans give undefined.
\<close>

fun get_member :: "string \<Rightarrow> json \<Rightarrow> json option" where
  "get_member k (JObj kvs) = map_of kvs k"
| "get_member k v = None"

text \<open>
  \<^verbatim>\<open>v[0]\<close> on a value that is neither null nor undefined: the first element of an array,
  the first code unit of a string, the property \<^verbatim>\<open>"0"\<close> of an object.
\<close>

fun get_index0 :: "json \<Rightarrow> json option" where
  "get_index0 (JArr xs) = (case xs of [] \<Rightarrow> None | x # rest \<Rightarrow> Some x)"
| "get_index0 (JStr s) = (case s of [] \<Rightarrow> None | c # rest \<Rightarrow> Some (JStr [c]))"
| "get_index0 (JObj kvs) = map_of kvs ''0''"
| "get_index0 v = None"

text \<open>Optional chaining \<^verbatim>\<open>v?.k\<close>, \<^verbatim>\<open>v?.[0]\<close>: undefined when \<open>v\<close> is null or undefined.\<close>

definition opt_chain :: "(json \<Rightarrow> json option) \<Rightarrow> json option \<Rightarrow> json option" where
  "opt_chain f v = (case v of None \<Rightarrow> None | Some JNull \<Rightarrow> None | Some x \<Rightarrow> f x)"

text \<open>\<^verbatim>\<open>v || ''\<close>.\<close>

definition or_empty :: "json option \<Rightarrow> json" where
  "or_empty v = (case v of None \<Rightarrow> JStr [] | Some x \<Rightarrow> if truthy x then x else JStr [])"

text \<open>\<^verbatim>\<open>s.startsWith(p)\<close> and \<^verbatim>\<open>s.slice(6)\<close>.\<close>

definition startsWith :: "string \<Rightarrow> string \<Rightarrow> bool" where
  "startsWith s p = (take (length p) s = p)"

definition slice6 :: "string \<Rightarrow> string" where
  "slice6 s = drop 6 s"

text \<open>
  \<^verbatim>\<open>buffer.split('\n\n')\<close>: the pieces between the occurrences of two line feeds, found
  from the left and not overlapping. The result is never empty.
\<close>

fun splitNN :: "string \<Rightarrow> string list" where
  "splitNN (a # b # rest) =
     (if a = CHR 0x0A \<and> b = CHR 0x0A then [] # splitNN rest
      else (case splitNN (b # rest) of
              [] \<Rightarrow> [[a]]
            | r # rs \<Rightarrow> (a # r) # rs))"
| "splitNN s = [s]"

section \<open>The stream normaliser: \<^verbatim>\<open>LLMProviders.streamResponse\<close>\<close>

datatype SupportedProviders = lmstudio | openai | anthropic | gemini

text \<open>
  What the normaliser does to the outgoing response \<^verbatim>\<open>res\<close>, in order:
  \<^item> \<open>Write_token v\<close> is \<^verbatim>\<open>res.write(`data: ${JSON.stringify({ token })}\n\n`)\<close>;
  \<^item> \<open>Write_done\<close> is \<^verbatim>\<open>res.write('data: [DONE]\n\n')\<close>;
  \<^item> \<open>Write_error m\<close> is \<^verbatim>\<open>res.write(`data: ${JSON.stringify({ error: m })}\n\n`)\<close>;
  \<^item> \<open>End_response\<close> is \<^verbatim>\<open>res.end()\<close>;
  \<^item> \<open>Write_head\<close> and \<open>Status_json\<close> belong to the request handler.
\<close>

datatype res_op =
    Write_head nat
  | Status_json nat string
  | Write_token json
  | Write_done
  | Write_error string
  | End_response

text \<open>
  The three extraction chains, each inside its \<^verbatim>\<open>try\<close>. The first property read is not
  optional, so it throws on \<^verbatim>\<open>null\<close>; the \<^verbatim>\<open>catch\<close> leaves the token empty.
\<close>

definition openai_token :: "json \<Rightarrow> json" where
  "openai_token parsed =
     (if parsed = JNull then JStr []
      else or_empty (opt_chain (get_member ''content'')
                    (opt_chain (get_member ''delta'')
                    (opt_chain get_index0 (get_member ''choices'' parsed)))))"

definition anthropic_token :: "json \<Rightarrow> json" where
  "anthropic_token parsed =
     (if parsed = JNull then JStr []
      else if get_member ''type'' parsed = Some (JStr ''content_block_delta'')
      then or_empty (opt_chain (get_member ''text'') (get_member ''delta'' parsed))
      else JStr [])"

definition gemini_token :: "json \<Rightarrow> json" where
  "gemini_token parsed =
     (if parsed = JNull then JStr []
      else or_empty (opt_chain (get_member ''text'')
                    (opt_chain get_index0
                    (opt_chain (get_member ''parts'')
                    (opt_chain (get_member ''content'')
                    (opt_chain get_index0 (get_member ''candidates'' parsed)))))))"

text \<open>\<^verbatim>\<open>if (token) { tokenCount++; res.write(...) }\<close>; the count only feeds the log.\<close>

definition emit_token :: "json \<Rightarrow> res_op list" where
  "emit_token token = (if truthy token then [Write_token token] else [])"

text \<open>
  The body of \<^verbatim>\<open>for (const event of events)\<close>. The result is what was written and
  whether the function returned (the \<^verbatim>\<open>[DONE]\<close> branches). \<open>parse\<close> is \<^verbatim>\<open>JSON.parse\<close>,
  \<open>None\<close> when it throws.
\<close>

definition handle_event ::
  "(string \<Rightarrow> json option) \<Rightarrow> SupportedProviders \<Rightarrow> string \<Rightarrow> res_op list \<times> bool" where
  "handle_event parse provider event =
     (if provider = anthropic then
        (if startsWith event ''data: '' then
           (let data = slice6 event in
            if data = ''[DONE]'' then ([Write_done, End_response], True)
            else (emit_token (case parse data of None \<Rightarrow> JStr []
                              | Some parsed \<Rightarrow> anthropic_token parsed), False))
         else (emit_token (JStr []), False))
      else if provider = gemini then
        (if startsWith event ''data: '' then
           (let data = slice6 event in
            (emit_token (case parse data of None \<Rightarrow> JStr []
                         | Some parsed \<Rightarrow> gemini_token parsed), False))
         else (emit_token (JStr []), False))
      else
        (if startsWith event ''data: '' then
           (let data = slice6 event in
            if data = ''[DONE]'' then ([Write_done, End_response], True)
            else (emit_token (case parse data of None \<Rightarrow> JStr []
                              | Some parsed \<Rightarrow> openai_token parsed), False))
         else (emit_token (JStr []), False)))"

fun process_events ::
  "(string \<Rightarrow> json option) \<Rightarrow> SupportedProviders \<Rightarrow> string list \<Rightarrow> res_op list \<times> bool" where
  "process_events parse provider [] = ([], False)"
| "process_events parse provider (event # events) =
     (case handle_event parse provider event of
        (ops, True) \<Rightarrow> (ops, True)
      | (ops, False) \<Rightarrow>
          (case process_events parse provider events of
             (ops', returned) \<Rightarrow> (ops @ ops', returned)))"

text \<open>
  The byte source. Each \<^verbatim>\<open>reader.read()\<close> gives the next chunk, decoded by
  \<^verbatim>\<open>decoder.decode(value, { stream: true })\<close>; after the chunks it reports \<^verbatim>\<open>done\<close>
  (\<open>Closed\<close>) or rejects (\<open>Aborted\<close>, the transport failed).
\<close>

datatype ending = Closed | Aborted error

text \<open>
  \<^verbatim>\<open>while (true)\<close>: the result is what was written to \<^verbatim>\<open>res\<close> and the error thrown to
  the caller, if any. \<^verbatim>\<open>events.pop() || ''\<close> is the last piece.
\<close>

fun read_loop ::
  "(string \<Rightarrow> json option) \<Rightarrow> SupportedProviders \<Rightarrow> string \<Rightarrow> string list \<Rightarrow> ending
     \<Rightarrow> res_op list \<times> error option" where
  "read_loop parse provider buffer [] Closed = ([End_response], None)"
| "read_loop parse provider buffer [] (Aborted e) = ([], Some e)"
| "read_loop parse provider buffer (chunk # chunks) fin =
     (let events = splitNN (buffer @ chunk);
          popped = last events;
          buffer' = (if popped = [] then [] else popped)
      in case process_events parse provider (butlast events) of
           (ops, True) \<Rightarrow> (ops, None)
         | (ops, False) \<Rightarrow>
             (case read_loop parse provider buffer' chunks fin of
                (ops', thrown) \<Rightarrow> (ops @ ops', thrown)))"

record response =
  ok :: bool
  status :: nat
  body :: "(string list \<times> ending) option"

definition streamResponse ::
  "(string \<Rightarrow> json option) \<Rightarrow> response \<Rightarrow> SupportedProviders \<Rightarrow> res_op list \<times> error option" where
  "streamResponse parse resp provider =
     (case body resp of
        None \<Rightarrow> ([], Some (Error ''Response body is not readable''))
      | Some (chunks, fin) \<Rightarrow> read_loop parse provider [] chunks fin)"

section \<open>The provider adapters: \<^verbatim>\<open>LLMProviders.call...\<close>\<close>

datatype MessageRole = User | Assistant | System

record ChatMessage =
  role :: MessageRole
  content :: string

record LLMProvider =
  name :: string
  baseUrl :: "string option"
  apiKey :: "string option"
  model :: string
  systemPrompt :: string
  maxTokens :: "rat option"
  temperature :: "rat option"
  enabled :: bool

text \<open>The JSON bodies that the adapters build with \<^verbatim>\<open>JSON.stringify\<close>, field by field.\<close>

record chat_body =
  cb_model :: string
  cb_messages :: "ChatMessage list"
  cb_stream :: bool
  cb_temperature :: "rat option"
  cb_max_tokens :: "rat option"

record anthropic_body =
  ab_model :: string
  ab_messages :: "ChatMessage list"
  ab_system :: string
  ab_stream :: bool
  ab_temperature :: "rat option"
  ab_max_tokens :: "rat option"

text \<open>\<^verbatim>\<open>{ role, parts: [{ text }] }\<close>: \<open>g_parts\<close> lists the \<^verbatim>\<open>text\<close> of each part.\<close>

record gemini_content =
  g_role :: string
  g_parts :: "string list"

record gemini_body =
  gb_contents :: "gemini_content list"
  gb_temperature :: "rat option"
  gb_maxOutputTokens :: "rat option"

datatype request_body =
    Chat_body chat_body
  | Anthropic_body anthropic_body
  | Gemini_body gemini_body

text \<open>The arguments of one \<^verbatim>\<open>fetch\<close> call.\<close>

record http_request =
  rq_url :: string
  rq_method :: string
  rq_headers :: "(string \<times> string) list"
  rq_body :: request_body

text \<open>A template literal prints an absent string as \<^verbatim>\<open>undefined\<close>.\<close>

definition tmpl :: "string option \<Rightarrow> string" where
  "tmpl v = (case v of None \<Rightarrow> ''undefined'' | Some s \<Rightarrow> s)"

text \<open>\<^verbatim>\<open>config.apiKey\<close> as a condition: absent and empty are both falsy.\<close>

definition has_apiKey :: "LLMProvider \<Rightarrow> bool" where
  "has_apiKey config = (case apiKey config of None \<Rightarrow> False | Some k \<Rightarrow> k \<noteq> [])"

text \<open>
  Each adapter gets \<^verbatim>\<open>fetch\<close> as a function from the request to the response or the
  rejection, and returns the requests it sent together with its own result.
\<close>

definition callLMStudio ::
  "(http_request \<Rightarrow> error + response) \<Rightarrow> LLMProvider \<Rightarrow> ChatMessage list
     \<Rightarrow> http_request list \<times> (error + response)" where
  "callLMStudio fetch config messages =
     (let rq = \<lparr>rq_url = tmpl (baseUrl config) @ ''/chat/completions'',
                rq_method = ''POST'',
                rq_headers = [(''Content-Type'', ''application/json'')],
                rq_body = Chat_body \<lparr>cb_model = model config, cb_messages = messages,
                  cb_stream = True, cb_temperature = temperature config,
                  cb_max_tokens = maxTokens config\<rparr>\<rparr>
      in ([rq], fetch rq))"

definition callOpenAI ::
  "(http_request \<Rightarrow> error + response) \<Rightarrow> LLMProvider \<Rightarrow> ChatMessage list
     \<Rightarrow> http_request list \<times> (error + response)" where
  "callOpenAI fetch config messages =
     (if \<not> has_apiKey config then ([], Inl (Error ''OpenAI API key not configured''))
      else
        let rq = \<lparr>rq_url = tmpl (baseUrl config) @ ''/chat/completions'',
                  rq_method = ''POST'',
                  rq_headers = [(''Content-Type'', ''application/json''),
                                (''Authorization'', ''Bearer '' @ tmpl (apiKey config))],
                  rq_body = Chat_body \<lparr>cb_model = model config, cb_messages = messages,
                    cb_stream = True, cb_temperature = temperature config,
                    cb_max_tokens = maxTokens config\<rparr>\<rparr>
        in ([rq], fetch rq))"

text \<open>\<^verbatim>\<open>systemMessage?.content || config.systemPrompt\<close>.\<close>

definition anthropic_system :: "LLMProvider \<Rightarrow> ChatMessage list \<Rightarrow> string" where
  "anthropic_system config messages =
     (case find (\<lambda>m. role m = System) messages of
        None \<Rightarrow> systemPrompt config
      | Some systemMessage \<Rightarrow>
          if content systemMessage \<noteq> [] then content systemMessage else systemPrompt config)"

definition callAnthropic ::
  "(http_request \<Rightarrow> error + response) \<Rightarrow> LLMProvider \<Rightarrow> ChatMessage list
     \<Rightarrow> http_request list \<times> (error + response)" where
  "callAnthropic fetch config messages =
     (if \<not> has_apiKey config then ([], Inl (Error ''Anthropic API key not configured''))
      else
        let conversationMessages = filter (\<lambda>m. role m \<noteq> System) messages;
            rq = \<lparr>rq_url = tmpl (baseUrl config) @ ''/messages'',
                  rq_method = ''POST'',
                  rq_headers = [(''Content-Type'', ''application/json''),
                                (''x-api-key'', tmpl (apiKey config)),
                                (''anthropic-version'', ''2023-06-01'')],
                  rq_body = Anthropic_body \<lparr>ab_model = model config,
                    ab_messages = conversationMessages,
                    ab_system = anthropic_system config messages,
                    ab_stream = True, ab_temperature = temperature config,
                    ab_max_tokens = maxTokens config\<rparr>\<rparr>
        in ([rq], fetch rq))"

definition callGemini ::
  "(http_request \<Rightarrow> error + response) \<Rightarrow> LLMProvider \<Rightarrow> ChatMessage list
     \<Rightarrow> http_request list \<times> (error + response)" where
  "callGemini fetch config messages =
     (if \<not> has_apiKey config then ([], Inl (Error ''Gemini API key not configured''))
      else
        let parts = map (\<lambda>msg. \<lparr>g_role = (if role msg = Assistant then ''model'' else ''user''),
                                g_parts = [content msg]\<rparr>) messages;
            rq = \<lparr>rq_url = tmpl (baseUrl config) @ ''/models/'' @ model config
                             @ '':streamGenerateContent?key='' @ tmpl (apiKey config),
                  rq_method = ''POST'',
                  rq_headers = [(''Content-Type'', ''application/json'')],
                  rq_body = Gemini_body \<lparr>gb_contents = parts,
                    gb_temperature = temperature config,
                    gb_maxOutputTokens = maxTokens config\<rparr>\<rparr>
        in ([rq], fetch rq))"

text \<open>
  The \<^verbatim>\<open>switch\<close> of \<^verbatim>\<open>callProvider\<close>; its \<^verbatim>\<open>default\<close> branch has no value of
  \<open>SupportedProviders\<close> left to match.
\<close>

fun callProvider ::
  "(http_request \<Rightarrow> error + response) \<Rightarrow> SupportedProviders \<Rightarrow> LLMProvider \<Rightarrow> ChatMessage list
     \<Rightarrow> http_request list \<times> (error + response)" where
  "callProvider fetch lmstudio config messages = callLMStudio fetch config messages"
| "callProvider fetch openai config messages = callOpenAI fetch config messages"
| "callProvider fetch anthropic config messages = callAnthropic fetch config messages"
| "callProvider fetch gemini config messages = callGemini fetch config messages"

section \<open>The configuration store: \<^verbatim>\<open>ConfigManager\<close>\<close>

text \<open>
  A configuration object holds its \<^verbatim>\<open>providers\<close> by reference: the field is the address
  of the providers object, and the store maps an address to that object, its entries in
  insertion order. A provider entry is reached through its providers object only.
  \<^verbatim>\<open>{ ...this.config }\<close> makes a new configuration object with the same field values,
  hence the same address in \<open>providers\<close>.
\<close>

type_synonym addr = nat

type_synonym providers_object = "(SupportedProviders \<times> LLMProvider) list"

type_synonym store = "addr \<Rightarrow> providers_object option"

record features =
  enableHistory :: bool
  maxHistoryLength :: nat
  enableThemes :: bool
  defaultTheme :: string

record config_object =
  activeProvider :: SupportedProviders
  providers :: addr
  config_features :: features

record ConfigManager =
  config :: config_object
  defaultConfig :: config_object

text \<open>\<^verbatim>\<open>c.providers[p]\<close>, undefined when the object has no such entry.\<close>

definition provider_entry :: "store \<Rightarrow> config_object \<Rightarrow> SupportedProviders \<Rightarrow> LLMProvider option" where
  "provider_entry st c p = (case st (providers c) of None \<Rightarrow> None | Some tbl \<Rightarrow> map_of tbl p)"

text \<open>
  The callback of \<^verbatim>\<open>forEach\<close> in \<^verbatim>\<open>getSafeConfig\<close>: the assignment to \<^verbatim>\<open>apiKey\<close> goes
  to the entry of the providers object that \<open>safeConfig\<close> refers to.
\<close>

definition mask_apiKey :: "config_object \<Rightarrow> SupportedProviders \<Rightarrow> store \<Rightarrow> store" where
  "mask_apiKey safeConfig p st =
     (case st (providers safeConfig) of
        None \<Rightarrow> st
      | Some tbl \<Rightarrow>
          (case map_of tbl p of
             None \<Rightarrow> st
           | Some entry \<Rightarrow>
               if has_apiKey entry
               then st(providers safeConfig \<mapsto>
                      AList.update p
                        (entry\<lparr>apiKey := Some (if has_apiKey entry then ''***'' else [])\<rparr>) tbl)
               else st))"

text \<open>\<^verbatim>\<open>getSafeConfig\<close>: the store after the call and the object returned.\<close>

definition getSafeConfig :: "store \<Rightarrow> ConfigManager \<Rightarrow> store \<times> config_object" where
  "getSafeConfig st this =
     (let safeConfig = config this;
          keys = (case st (providers safeConfig) of None \<Rightarrow> [] | Some tbl \<Rightarrow> map fst tbl)
      in (fold (mask_apiKey safeConfig) keys st, safeConfig))"

text \<open>
  \<^verbatim>\<open>GET /config\<close> answers with the JSON of the object returned, that is with its provider
  entries as the store has them after the call.
\<close>

definition get_config :: "store \<Rightarrow> ConfigManager \<Rightarrow> store \<times> providers_object option" where
  "get_config st this =
     (case getSafeConfig st this of (st', safeConfig) \<Rightarrow> (st', st' (providers safeConfig)))"

text \<open>
  The constructor. \<^verbatim>\<open>defaultConfig\<close> takes the three keys from the environment
  (\<^verbatim>\<open>process.env.OPENAI_API_KEY || ''\<close>); the LM Studio entry has no \<^verbatim>\<open>apiKey\<close>.
\<close>

definition env_or_empty :: "string option \<Rightarrow> string" where
  "env_or_empty v = (case v of None \<Rightarrow> [] | Some s \<Rightarrow> s)"

definition default_systemPrompt :: string where
  "default_systemPrompt = ''You are a helpful AI assistant analyzing web content. Be concise but thorough. Format your responses with markdown when appropriate.''"

definition default_lmstudio :: LLMProvider where
  "default_lmstudio =
     \<lparr>name = ''LM Studio'', baseUrl = Some ''http://localhost:1234/v1'', apiKey = None,
      model = ''auto'', systemPrompt = default_systemPrompt,
      maxTokens = Some 1000, temperature = Some (1 / 10), enabled = True\<rparr>"

definition default_openai :: "string option \<Rightarrow> LLMProvider" where
  "default_openai OPENAI_API_KEY =
     \<lparr>name = ''OpenAI'', baseUrl = Some ''https://api.openai.com/v1'',
      apiKey = Some (env_or_empty OPENAI_API_KEY), model = ''gpt-4o-mini'',
      systemPrompt = default_systemPrompt,
      maxTokens = Some 1000, temperature = Some (1 / 10), enabled = True\<rparr>"

definition default_anthropic :: "string option \<Rightarrow> LLMProvider" where
  "default_anthropic ANTHROPIC_API_KEY =
     \<lparr>name = ''Anthropic Claude'', baseUrl = Some ''https://api.anthropic.com/v1'',
      apiKey = Some (env_or_empty ANTHROPIC_API_KEY), model = ''claude-3-haiku-20240307'',
      systemPrompt = default_systemPrompt,
      maxTokens = Some 1000, temperature = Some (1 / 10), enabled = True\<rparr>"

definition default_gemini :: "string option \<Rightarrow> LLMProvider" where
  "default_gemini GEMINI_API_KEY =
     \<lparr>name = ''Google Gemini'',
      baseUrl = Some ''https://generativelanguage.googleapis.com/v1beta'',
      apiKey = Some (env_or_empty GEMINI_API_KEY), model = ''gemini-1.5-flash'',
      systemPrompt = default_systemPrompt,
      maxTokens = Some 1000, temperature = Some (1 / 10), enabled = True\<rparr>"

text \<open>
  The manager as the constructor leaves it when no configuration file exists:
  \<^verbatim>\<open>this.config = { ...this.defaultConfig }\<close>, so both configuration objects refer to the
  one providers object, here at address 0.
\<close>

definition new_ConfigManager ::
  "string option \<Rightarrow> string option \<Rightarrow> string option \<Rightarrow> store \<times> ConfigManager" where
  "new_ConfigManager OPENAI_API_KEY ANTHROPIC_API_KEY GEMINI_API_KEY =
     (let dc = \<lparr>activeProvider = lmstudio, providers = 0,
                config_features = \<lparr>enableHistory = True, maxHistoryLength = 6,
                                    enableThemes = True, defaultTheme = ''dark''\<rparr>\<rparr>
      in ((\<lambda>a. None)(0 \<mapsto> [(lmstudio, default_lmstudio),
                             (openai, default_openai OPENAI_API_KEY),
                             (anthropic, default_anthropic ANTHROPIC_API_KEY),
                             (gemini, default_gemini GEMINI_API_KEY)]),
          \<lparr>config = dc, defaultConfig = dc\<rparr>))"

section \<open>The request handler: \<^verbatim>\<open>POST /chat-stream\<close>\<close>

record ChatHistoryItem =
  h_type :: MessageRole
  h_content :: string
  h_timestamp :: rat

record ChatRequest =
  c_title :: string
  c_url :: string
  c_text :: string
  c_question :: string
  c_history :: "ChatHistoryItem list option"
  c_provider :: "SupportedProviders option"

fun provider_name :: "SupportedProviders \<Rightarrow> string" where
  "provider_name lmstudio = ''lmstudio''"
| "provider_name openai = ''openai''"
| "provider_name anthropic = ''anthropic''"
| "provider_name gemini = ''gemini''"

text \<open>A number in a template literal, in decimal.\<close>

fun show_nat :: "nat \<Rightarrow> string" where
  "show_nat n =
     (if n < 10 then [char_of (48 + n)]
      else show_nat (n div 10) @ [char_of (48 + n mod 10)])"

text \<open>
  \<^verbatim>\<open>`Current page: "${title}" (${url})\n\n${text}\n\nQuestion: ${question}`\<close>
\<close>

definition contextualQuestion :: "ChatRequest \<Rightarrow> string" where
  "contextualQuestion req =
     ''Current page: '' @ [CHR 0x22] @ c_title req @ [CHR 0x22] @ '' ('' @ c_url req @ '')''
       @ [CHR 0x0A, CHR 0x0A] @ c_text req
       @ [CHR 0x0A, CHR 0x0A] @ ''Question: '' @ c_question req"

text \<open>
  The block "Build messages array" of the handler. \<^verbatim>\<open>history\<close> is taken from the
  request body (default \<^verbatim>\<open>[]\<close>) and its length is logged; the array is built from the
  system prompt and the combined question.
\<close>

definition build_messages :: "LLMProvider \<Rightarrow> ChatRequest \<Rightarrow> ChatMessage list" where
  "build_messages providerConfig req =
     (let history = (case c_history req of None \<Rightarrow> [] | Some h \<Rightarrow> h);
          messages = [\<lparr>role = System, content = systemPrompt providerConfig\<rparr>]
      in messages @ [\<lparr>role = User, content = contextualQuestion req\<rparr>])"

text \<open>
  The handler: the requests sent with \<^verbatim>\<open>fetch\<close> and what is done to \<^verbatim>\<open>res\<close>. The
  \<^verbatim>\<open>catch\<close> runs after \<^verbatim>\<open>writeHead\<close>, so \<^verbatim>\<open>res.headersSent\<close> holds there and the error
  goes out as a record of the stream.
\<close>

text \<open>\<^verbatim>\<open>provider || configManager.config.activeProvider\<close>.\<close>

definition request_provider :: "ConfigManager \<Rightarrow> ChatRequest \<Rightarrow> SupportedProviders" where
  "request_provider configManager req =
     (case c_provider req of
        None \<Rightarrow> activeProvider (config configManager)
      | Some p \<Rightarrow> p)"

definition chat_stream ::
  "(string \<Rightarrow> json option) \<Rightarrow> (http_request \<Rightarrow> error + response) \<Rightarrow> store \<Rightarrow> ConfigManager
     \<Rightarrow> ChatRequest \<Rightarrow> http_request list \<times> res_op list" where
  "chat_stream parse fetch st configManager req =
     (if c_title req = [] \<or> c_url req = [] \<or> c_text req = [] \<or> c_question req = []
      then ([], [Status_json 400 ''Missing required fields: title, url, text, question''])
      else
        let active = request_provider configManager req
        in case provider_entry st (config configManager) active of
             None \<Rightarrow> ([], [Status_json 400 (''Unknown provider: '' @ provider_name active)])
           | Some providerConfig \<Rightarrow>
               (case callProvider fetch active providerConfig (build_messages providerConfig req) of
                  (calls, Inl e) \<Rightarrow>
                    (calls, [Write_head 200, Write_error (message e), End_response])
                | (calls, Inr resp) \<Rightarrow>
                    if \<not> ok resp
                    then (calls, [Write_head 200,
                                  Write_error (provider_name active @ '' server error: ''
                                               @ show_nat (status resp)),
                                  End_response])
                    else (case streamResponse parse resp active of
                            (ops, None) \<Rightarrow> (calls, Write_head 200 # ops)
                          | (ops, Some e) \<Rightarrow>
                              (calls, Write_head 200 # ops
                                        @ [Write_error (message e), End_response]))))"

section \<open>A model of \<^verbatim>\<open>JSON.parse\<close>\<close>

text \<open>
  The normaliser takes its parser as an argument, so what is proved of it holds for any
  parser. Where a concrete run is evaluated, the parser is \<open>JSON_parse\<close> below: the JSON
  grammar by recursive descent, bounded by a fuel that the length of the text covers.
  Two limits of the text model: a number is kept exact, and an escape \<^verbatim>\<open>\uXXXX\<close> above
  \<^verbatim>\<open>00FF\<close> is rejected since a \<open>char\<close> has eight bits.
\<close>

definition is_ws :: "char \<Rightarrow> bool" where
  "is_ws c = (c = CHR 0x20 \<or> c = CHR 0x09 \<or> c = CHR 0x0A \<or> c = CHR 0x0D)"

definition skip_ws :: "string \<Rightarrow> string" where
  "skip_ws s = dropWhile is_ws s"

definition is_digit :: "char \<Rightarrow> bool" where
  "is_digit c = (48 \<le> (of_char c :: nat) \<and> (of_char c :: nat) \<le> 57)"

definition nat_of_digits :: "string \<Rightarrow> nat" where
  "nat_of_digits ds = foldl (\<lambda>n c. 10 * n + (of_char c - 48)) 0 ds"

definition hex_digit :: "char \<Rightarrow> nat option" where
  "hex_digit c =
     (let n = (of_char c :: nat) in
      if 48 \<le> n \<and> n \<le> 57 then Some (n - 48)
      else if 65 \<le> n \<and> n \<le> 70 then Some (n - 55)
      else if 97 \<le> n \<and> n \<le> 102 then Some (n - 87)
      else None)"

definition unescape :: "char \<Rightarrow> char option" where
  "unescape e =
     (if e = CHR 0x22 then Some (CHR 0x22)
      else if e = CHR 0x5C then Some (CHR 0x5C)
      else if e = CHR ''/'' then Some (CHR ''/'')
      else if e = CHR ''b'' then Some (CHR 0x08)
      else if e = CHR ''f'' then Some (CHR 0x0C)
      else if e = CHR ''n'' then Some (CHR 0x0A)
      else if e = CHR ''r'' then Some (CHR 0x0D)
      else if e = CHR ''t'' then Some (CHR 0x09)
      else None)"

fun parse_chars :: "string \<Rightarrow> (string \<times> string) option" where
  "parse_chars [] = None"
| "parse_chars (c # cs) =
     (if c = CHR 0x22 then Some ([], cs)
      else if c = CHR 0x5C then
        (case cs of
           [] \<Rightarrow> None
         | e # cs' \<Rightarrow>
             (case unescape e of
                Some ch \<Rightarrow> map_option (\<lambda>(s, r). (ch # s, r)) (parse_chars cs')
              | None \<Rightarrow>
                  (case (e = CHR ''u'', cs') of
                     (True, h1 # h2 # h3 # h4 # cs'') \<Rightarrow>
                       (case (hex_digit h1, hex_digit h2, hex_digit h3, hex_digit h4) of
                          (Some a, Some b, Some c', Some d) \<Rightarrow>
                            (if a = 0 \<and> b = 0
                             then map_option (\<lambda>(s, r). (char_of (16 * c' + d) # s, r)) (parse_chars cs'')
                             else None)
                        | _ \<Rightarrow> None)
                   | _ \<Rightarrow> None)))
      else if (of_char c :: nat) < 32 then None
      else map_option (\<lambda>(s, r). (c # s, r)) (parse_chars cs))"

definition parse_number :: "string \<Rightarrow> (rat \<times> string) option" where
  "parse_number s =
     (let (neg, s1) = (case s of c # r \<Rightarrow> if c = CHR ''-'' then (True, r) else (False, s) | [] \<Rightarrow> (False, s));
          ip = takeWhile is_digit s1; s2 = dropWhile is_digit s1
      in if ip = [] \<or> (length ip > 1 \<and> hd ip = CHR ''0'') then None
         else
           let (fp_ok, fp, s3) =
                 (case s2 of
                    c # r \<Rightarrow> if c = CHR ''.'' then (takeWhile is_digit r \<noteq> [], takeWhile is_digit r, dropWhile is_digit r)
                             else (True, [], s2)
                  | [] \<Rightarrow> (True, [], s2));
               (ex_ok, ex, s4) =
                 (case s3 of
                    c # r \<Rightarrow>
                      if c = CHR ''e'' \<or> c = CHR ''E'' then
                        (let (eneg, r1) = (case r of d # r' \<Rightarrow> if d = CHR ''-'' then (True, r')
                                                        else if d = CHR ''+'' then (False, r') else (False, r)
                                           | [] \<Rightarrow> (False, r))
                         in (takeWhile is_digit r1 \<noteq> [],
                             (if eneg then - int (nat_of_digits (takeWhile is_digit r1))
                              else int (nat_of_digits (takeWhile is_digit r1))),
                             dropWhile is_digit r1))
                      else (True, 0, s3)
                  | [] \<Rightarrow> (True, 0, s3))
           in if fp_ok \<and> ex_ok then
                (let m = of_nat (nat_of_digits ip) + of_nat (nat_of_digits fp) / 10 ^ length fp;
                     v = (if ex \<ge> 0 then m * 10 ^ nat ex else m / 10 ^ nat (- ex))
                 in Some (if neg then - v else v, s4))
              else None)"

definition expect :: "char \<Rightarrow> string \<Rightarrow> string option" where
  "expect ch s = (case skip_ws s of [] \<Rightarrow> None | c # r \<Rightarrow> if c = ch then Some r else None)"

definition literal :: "string \<Rightarrow> json \<Rightarrow> string \<Rightarrow> (json \<times> string) option" where
  "literal w v s = (if take (length w) s = w then Some (v, drop (length w) s) else None)"

fun parse_value :: "nat \<Rightarrow> string \<Rightarrow> (json \<times> string) option"
  and parse_elements :: "nat \<Rightarrow> json list \<Rightarrow> string \<Rightarrow> (json \<times> string) option"
  and parse_members :: "nat \<Rightarrow> (string \<times> json) list \<Rightarrow> string \<Rightarrow> (json \<times> string) option" where
  "parse_value 0 s = None"
| "parse_value (Suc n) s =
     (case skip_ws s of
        [] \<Rightarrow> None
      | c # r \<Rightarrow>
          if c = CHR ''{'' then
            (case expect (CHR ''}'') r of Some r' \<Rightarrow> Some (JObj [], r') | None \<Rightarrow> parse_members n [] r)
          else if c = CHR ''['' then
            (case expect (CHR '']'') r of Some r' \<Rightarrow> Some (JArr [], r') | None \<Rightarrow> parse_elements n [] r)
          else if c = CHR 0x22 then map_option (\<lambda>(str, r'). (JStr str, r')) (parse_chars r)
          else if c = CHR ''t'' then literal ''true'' (JBool True) (c # r)
          else if c = CHR ''f'' then literal ''false'' (JBool False) (c # r)
          else if c = CHR ''n'' then literal ''null'' JNull (c # r)
          else map_option (\<lambda>(x, r'). (JNum x, r')) (parse_number (c # r)))"
| "parse_elements 0 acc s = None"
| "parse_elements (Suc n) acc s =
     (case parse_value n s of
        None \<Rightarrow> None
      | Some (v, r) \<Rightarrow>
          (case expect (CHR '','') r of
             Some r' \<Rightarrow> parse_elements n (acc @ [v]) r'
           | None \<Rightarrow> map_option (\<lambda>r'. (JArr (acc @ [v]), r')) (expect (CHR '']'') r)))"
| "parse_members 0 acc s = None"
| "parse_members (Suc n) acc s =
     (case expect (CHR 0x22) s of
        None \<Rightarrow> None
      | Some r \<Rightarrow>
          (case parse_chars r of
             None \<Rightarrow> None
           | Some (k, r1) \<Rightarrow>
               (case expect (CHR '':'') r1 of
                  None \<Rightarrow> None
                | Some r2 \<Rightarrow>
                    (case parse_value n r2 of
                       None \<Rightarrow> None
                     | Some (v, r3) \<Rightarrow>
                         (case expect (CHR '','') r3 of
                            Some r4 \<Rightarrow> parse_members n (AList.update k v acc) r4
                          | None \<Rightarrow>
                              map_option (\<lambda>r4. (JObj (AList.update k v acc), r4))
                                (expect (CHR ''}'') r3))))))"

definition JSON_parse :: "string \<Rightarrow> json option" where
  "JSON_parse s =
     (case parse_value (2 * length s + 2) s of
        None \<Rightarrow> None
      | Some (v, r) \<Rightarrow> if skip_ws r = [] then Some v else None)"

section \<open>Auxiliary notions\<close>

text \<open>What follows the loop: \<^verbatim>\<open>res.end()\<close> after \<^verbatim>\<open>done\<close>, the rejection otherwise.\<close>

fun after_events :: "ending \<Rightarrow> res_op list \<times> error option" where
  "after_events Closed = ([End_response], None)"
| "after_events (Aborted e) = ([], Some e)"

text \<open>The complete records of a text: every piece of the split but the last.\<close>

definition records :: "string \<Rightarrow> string list" where
  "records s = butlast (splitNN s)"

text \<open>The writes that carry a token.\<close>

fun is_token :: "res_op \<Rightarrow> bool" where
  "is_token (Write_token v) = True"
| "is_token other = False"

text \<open>The record at which the loop returns: the sentinel, for every provider but Gemini.\<close>

definition sentinel :: "SupportedProviders \<Rightarrow> string \<Rightarrow> bool" where
  "sentinel provider event = (provider \<noteq> gemini \<and> event = ''data: [DONE]'')"

section \<open>Sample inputs\<close>

text \<open>A provider that answers 200 with the given chunks and ending.\<close>

definition fetch_ok :: "string list \<Rightarrow> ending \<Rightarrow> http_request \<Rightarrow> error + response" where
  "fetch_ok chunks fin rq = Inr \<lparr>ok = True, status = 200, body = Some (chunks, fin)\<rparr>"

definition sample_request ::
  "SupportedProviders \<Rightarrow> ChatHistoryItem list option \<Rightarrow> ChatRequest" where
  "sample_request p h =
     \<lparr>c_title = ''Docs'', c_url = ''https://example.com'', c_text = ''Some page text.'',
      c_question = ''What is this?'', c_history = h, c_provider = Some p\<rparr>"

definition sample_history :: "ChatHistoryItem list" where
  "sample_history =
     [\<lparr>h_type = User, h_content = ''Who wrote it?'', h_timestamp = 1\<rparr>,
      \<lparr>h_type = Assistant, h_content = ''The page names no author.'', h_timestamp = 2\<rparr>]"

definition sample_messages :: "ChatMessage list" where
  "sample_messages =
     [\<lparr>role = System, content = ''Be brief.''\<rparr>,
      \<lparr>role = User, content = ''Hello''\<rparr>,
      \<lparr>role = Assistant, content = ''Hi''\<rparr>]"

text \<open>The payloads and records of the three wire formats.\<close>

definition delta_content :: "string \<Rightarrow> json" where
  "delta_content s =
     JObj [(''choices'', JArr [JObj [(''delta'', JObj [(''content'', JStr s)])]])]"

definition hi_payload :: string where
  "hi_payload = ''{\"choices\":[{\"delta\":{\"content\":\"Hi\"}}]}''"

definition there_payload :: string where
  "there_payload = ''{\"choices\":[{\"delta\":{\"content\":\" there\"}}]}''"

definition blank_line :: string where
  "blank_line = [CHR 0x0A, CHR 0x0A]"

definition scenario_A_text :: string where
  "scenario_A_text =
     ''data: '' @ hi_payload @ blank_line
     @ ''data: '' @ there_payload @ blank_line
     @ ''data: [DONE]'' @ blank_line"

definition scenario_B_text :: string where
  "scenario_B_text =
     ''data: {\"type\":\"message_start\"}'' @ blank_line
     @ ''data: {\"type\":\"content_block_delta\",\"delta\":{\"text\":\"Hello\"}}'' @ blank_line"

definition scenario_C_text :: string where
  "scenario_C_text =
     ''data: {\"candidates\":[{\"content\":{\"parts\":[{\"text\":\"OK\"}]}}]}'' @ blank_line"

definition broken_payload :: string where
  "broken_payload = ''{\"type\":\"content_block_delta\",\"delta\":{\"text\":''"

definition hello_record :: string where
  "hello_record = ''data: {\"type\":\"content_block_delta\",\"delta\":{\"text\":\"Hello\"}}''"

definition world_record :: string where
  "world_record = ''data: {\"type\":\"content_block_delta\",\"delta\":{\"text\":\" world\"}}''"

text \<open>
  A parser that reads the payloads of scenario A as JSON does and turns any other text
  into a token: a parse of anything but a complete record would show in the output.
\<close>

definition leaking_parse :: "string \<Rightarrow> json option" where
  "leaking_parse s =
     (if s = hi_payload \<or> s = there_payload \<or> s = ''[DONE]'' then JSON_parse s
      else Some (JStr ''leak''))"

section \<open>Splitting and buffering\<close>

lemma splitNN_nonempty: "splitNN s \<noteq> []"
  by (induction s rule: splitNN.induct) (auto split: list.splits)

lemma splitNN_single: "splitNN s = [r] \<Longrightarrow> r = s"
  by (induction s arbitrary: r rule: splitNN.induct)
     (auto split: list.splits if_splits simp: splitNN_nonempty)

lemma splitNN_step:
  "\<not> (a = CHR 0x0A \<and> b = CHR 0x0A) \<Longrightarrow>
   splitNN (a # b # rest) = (a # hd (splitNN (b # rest))) # tl (splitNN (b # rest))"
  using splitNN_nonempty[of "b # rest"] by (cases "splitNN (b # rest)") auto

text \<open>Splitting a longer text only resumes at the piece left over.\<close>

lemma splitNN_append:
  "splitNN (x @ y) = butlast (splitNN x) @ splitNN (last (splitNN x) @ y)"
proof (induction x rule: splitNN.induct)
  case (1 a b rest)
  show ?case
  proof (cases "a = CHR 0x0A \<and> b = CHR 0x0A")
    case True
    then show ?thesis using 1(1) by (simp add: splitNN_nonempty)
  next
    case False
    obtain r rs where L: "splitNN (b # rest) = r # rs"
      using splitNN_nonempty[of "b # rest"] by (cases "splitNN (b # rest)") auto
    have S: "splitNN (a # b # rest) = (a # r) # rs"
      using False L by (simp add: splitNN_step del: splitNN.simps)
    show ?thesis
    proof (cases rs)
      case Nil
      then have "a # r = a # b # rest" using S splitNN_single by blast
      then show ?thesis using S Nil by (simp del: splitNN.simps)
    next
      case (Cons r' rs')
      have IH: "splitNN ((b # rest) @ y) = butlast (r # rs) @ splitNN (last (r # rs) @ y)"
        using 1(2)[OF False] L by simp
      have "splitNN ((a # b # rest) @ y) =
            (a # hd (splitNN ((b # rest) @ y))) # tl (splitNN ((b # rest) @ y))"
        using False by (simp add: splitNN_step del: splitNN.simps)
      also have "\<dots> = (a # r) # butlast rs @ splitNN (last rs @ y)"
        using IH Cons by (simp del: splitNN.simps)
      finally show ?thesis using S Cons by (simp del: splitNN.simps)
    qed
  qed
qed simp_all

lemma splitNN_last: "splitNN (last (splitNN s)) = [last (splitNN s)]"
proof -
  have "splitNN (s @ []) = butlast (splitNN s) @ splitNN (last (splitNN s) @ [])"
    by (rule splitNN_append)
  moreover have "splitNN s = butlast (splitNN s) @ [last (splitNN s)]"
    using splitNN_nonempty by simp
  ultimately show ?thesis by (metis append_Nil2 same_append_eq)
qed

lemma process_events_append:
  "process_events parse p (es1 @ es2) =
     (case process_events parse p es1 of
        (ops, True) \<Rightarrow> (ops, True)
      | (ops, False) \<Rightarrow>
          (case process_events parse p es2 of (ops', returned) \<Rightarrow> (ops @ ops', returned)))"
  by (induction es1) (auto split: prod.splits bool.splits)

text \<open>
  The loop over the chunks does what one pass over the complete records of the whole text
  does, whatever the chunks are.
\<close>

lemma read_loop_canonical:
  "splitNN buffer = [buffer] \<Longrightarrow>
   read_loop parse p buffer chunks fin =
     (case process_events parse p (records (buffer @ concat chunks)) of
        (ops, True) \<Rightarrow> (ops, None)
      | (ops, False) \<Rightarrow> (ops @ fst (after_events fin), snd (after_events fin)))"
proof (induction chunks arbitrary: buffer)
  case Nil
  then show ?case by (cases fin) (simp_all add: records_def)
next
  case (Cons chunk chunks)
  let ?events = "splitNN (buffer @ chunk)"
  let ?b = "last ?events"
  have b: "splitNN ?b = [?b]" by (rule splitNN_last)
  have split: "records (buffer @ concat (chunk # chunks))
      = butlast ?events @ records (?b @ concat chunks)"
    using splitNN_append[of "buffer @ chunk" "concat chunks"]
    by (simp add: butlast_append splitNN_nonempty records_def)
  show ?case
    unfolding split process_events_append
    using Cons.IH[OF b]
    by (simp add: Let_def split: prod.splits bool.splits)
qed

lemma streamResponse_canonical:
  "body resp = Some (chunks, fin) \<Longrightarrow>
   streamResponse parse resp p =
     (case process_events parse p (records (concat chunks)) of
        (ops, True) \<Rightarrow> (ops, None)
      | (ops, False) \<Rightarrow> (ops @ fst (after_events fin), snd (after_events fin)))"
  by (simp add: streamResponse_def read_loop_canonical)

text \<open>The loop body hands the parser the payload of a \<^verbatim>\<open>data:\<close> record and nothing else.\<close>

lemma handle_event_cong:
  "(startsWith e ''data: '' \<longrightarrow> parse1 (slice6 e) = parse2 (slice6 e)) \<Longrightarrow>
   handle_event parse1 p e = handle_event parse2 p e"
  by (simp add: handle_event_def Let_def)

lemma process_events_cong:
  "\<forall>e \<in> set es. startsWith e ''data: '' \<longrightarrow> parse1 (slice6 e) = parse2 (slice6 e) \<Longrightarrow>
   process_events parse1 p es = process_events parse2 p es"
proof (induction es)
  case Nil then show ?case by simp
next
  case (Cons e es)
  then have "handle_event parse1 p e = handle_event parse2 p e"
    by (simp add: handle_event_cong)
  moreover have "process_events parse1 p es = process_events parse2 p es"
    using Cons by simp
  ultimately show ?case by simp
qed

section \<open>The sentinel\<close>

lemma startsWith_data: "startsWith e ''data: '' \<longleftrightarrow> take 6 e = ''data: ''"
  by (simp add: startsWith_def eval_nat_numeral)

lemma data_done_iff:
  "(startsWith e ''data: '' \<and> slice6 e = ''[DONE]'') \<longleftrightarrow> e = ''data: [DONE]''"
proof
  assume "startsWith e ''data: '' \<and> slice6 e = ''[DONE]''"
  then have "take 6 e = ''data: ''" "drop 6 e = ''[DONE]''"
    by (simp_all add: startsWith_data slice6_def)
  then have "take 6 e @ drop 6 e = ''data: [DONE]''" by simp
  then show "e = ''data: [DONE]''" by (simp only: append_take_drop_id)
next
  assume "e = ''data: [DONE]''"
  then show "startsWith e ''data: '' \<and> slice6 e = ''[DONE]''"
    by (simp add: startsWith_data slice6_def)
qed

lemma emit_token_tokens: "list_all is_token (emit_token t)"
  by (simp add: emit_token_def)

lemma handle_event_sentinel:
  "sentinel p e \<Longrightarrow> handle_event parse p e = ([Write_done, End_response], True)"
  using data_done_iff[of e]
  by (auto simp add: handle_event_def sentinel_def Let_def)

lemma handle_event_other:
  "\<not> sentinel p e \<Longrightarrow>
   snd (handle_event parse p e) = False \<and> list_all is_token (fst (handle_event parse p e))"
  using data_done_iff[of e]
  by (auto simp add: handle_event_def sentinel_def Let_def emit_token_tokens)

lemma process_events_no_sentinel:
  "\<not> list_ex (sentinel p) es \<Longrightarrow>
   snd (process_events parse p es) = False
   \<and> list_all is_token (fst (process_events parse p es))"
proof (induction es)
  case Nil then show ?case by simp
next
  case (Cons e es)
  then have a: "\<not> sentinel p e" and b: "\<not> list_ex (sentinel p) es" by simp_all
  show ?case
    using handle_event_other[OF a, of parse] Cons.IH[OF b]
    by (auto split: prod.splits bool.splits)
qed

lemma process_events_sentinel:
  "list_ex (sentinel p) es \<Longrightarrow>
   \<exists>ops. process_events parse p es = (ops @ [Write_done, End_response], True)
         \<and> list_all is_token ops"
proof (induction es)
  case Nil then show ?case by simp
next
  case (Cons e es)
  show ?case
  proof (cases "sentinel p e")
    case True
    then show ?thesis using handle_event_sentinel[OF True, of parse] by simp
  next
    case False
    then have "list_ex (sentinel p) es" using Cons.prems by simp
    then obtain ops where o: "process_events parse p es = (ops @ [Write_done, End_response], True)"
      "list_all is_token ops" using Cons.IH by blast
    obtain t where t: "handle_event parse p e = (t, False)" "list_all is_token t"
      using handle_event_other[OF False, of parse] by (cases "handle_event parse p e") auto
    have "process_events parse p (e # es) = ((t @ ops) @ [Write_done, End_response], True)"
      using o t by simp
    moreover have "list_all is_token (t @ ops)" using o t by simp
    ultimately show ?thesis by blast
  qed
qed

lemma list_ex_sentinel:
  "list_ex (sentinel p) es \<longleftrightarrow> p \<noteq> gemini \<and> ''data: [DONE]'' \<in> set es"
  by (auto simp add: list_ex_iff sentinel_def)

section \<open>Sample runs\<close>

lemma parse_hi: "JSON_parse hi_payload = Some (delta_content ''Hi'')"
  by code_simp

lemma parse_there: "JSON_parse there_payload = Some (delta_content '' there'')"
  by code_simp

lemma parse_broken: "JSON_parse broken_payload = None"
  by code_simp

lemma records_scenario_A:
  "records scenario_A_text = [''data: '' @ hi_payload, ''data: '' @ there_payload, ''data: [DONE]'']"
  by code_simp

lemma records_scenario_B:
  "records scenario_B_text = [''data: {\"type\":\"message_start\"}'', hello_record]"
  by code_simp

lemma openai_token_delta_content: "openai_token (delta_content s) = JStr s"
  by (simp add: openai_token_def delta_content_def opt_chain_def or_empty_def)

lemma payloads_not_sentinel: "hi_payload \<noteq> ''[DONE]'' \<and> there_payload \<noteq> ''[DONE]''"
  by code_simp

section \<open>Properties of the stream normaliser\<close>

text \<open>
  C1. Chunk-boundary independence: for every provider, two responses whose chunks
  concatenate to the same text and that end the same way give the same writes and the
  same outcome, wherever the chunk boundaries fall (inside a record too). The piece after
  the last blank line stays in the buffer and is not parsed: the result is the same for
  any two parsers that agree on the payloads of the complete \<^verbatim>\<open>data:\<close> records, whatever
  they would make of a partial record.
\<close>

theorem chunk_boundary_independence:
  assumes "body r1 = Some (chunks1, fin)" and "body r2 = Some (chunks2, fin)"
    and "concat chunks1 = concat chunks2"
    and "\<forall>e \<in> set (records (concat chunks1)).
           startsWith e ''data: '' \<longrightarrow> parse1 (slice6 e) = parse2 (slice6 e)"
  shows "streamResponse parse1 r1 provider = streamResponse parse2 r2 provider"
  using assms process_events_cong[of "records (concat chunks2)" parse1 parse2 provider]
  by (simp add: streamResponse_canonical)

lemma leaking_parse_records:
  "\<forall>e \<in> set (records (concat [take 20 scenario_A_text, drop 20 scenario_A_text])).
     startsWith e ''data: '' \<longrightarrow> leaking_parse (slice6 e) = JSON_parse (slice6 e)"
  using records_scenario_A
  by (simp add: leaking_parse_def slice6_def)

lemma leaking_parse_partial:
  "leaking_parse (slice6 (take 20 scenario_A_text)) \<noteq> JSON_parse (slice6 (take 20 scenario_A_text))"
  by code_simp

text \<open>
  The text of scenario A cut after twenty characters, inside the first record, against
  the text in one chunk; the two parsers differ on the partial record.
\<close>

theorem chunk_boundary_independence_witness:
  "concat [take 20 scenario_A_text, drop 20 scenario_A_text] = concat [scenario_A_text]
   \<and> leaking_parse (slice6 (take 20 scenario_A_text))
       \<noteq> JSON_parse (slice6 (take 20 scenario_A_text))
   \<and> streamResponse leaking_parse
        \<lparr>ok = True, status = 200,
         body = Some ([take 20 scenario_A_text, drop 20 scenario_A_text], Closed)\<rparr> openai
     = streamResponse JSON_parse
        \<lparr>ok = True, status = 200, body = Some ([scenario_A_text], Closed)\<rparr> openai"
  using leaking_parse_partial leaking_parse_records
    chunk_boundary_independence
      [of "\<lparr>ok = True, status = 200,
             body = Some ([take 20 scenario_A_text, drop 20 scenario_A_text], Closed)\<rparr>"
          "[take 20 scenario_A_text, drop 20 scenario_A_text]" Closed
          "\<lparr>ok = True, status = 200, body = Some ([scenario_A_text], Closed)\<rparr>"
          "[scenario_A_text]" leaking_parse JSON_parse openai]
  by simp

text \<open>
  C6. Decode tolerance: a record \<^verbatim>\<open>data: <payload>\<close> whose payload the parser rejects
  writes nothing and does not end the loop, and the stream that holds it among its
  complete records behaves as the stream without it: every later record gives what it
  gives there. The sentinel \<^verbatim>\<open>[DONE]\<close> is recognised before any parsing and is not such a
  record (Gemini has no sentinel).
\<close>

theorem decode_tolerance:
  assumes "parse payload = None"
    and "provider = gemini \<or> payload \<noteq> ''[DONE]''"
    and "body r1 = Some (chunks1, fin)"
    and "records (concat chunks1) = es1 @ (''data: '' @ payload) # es2"
    and "body r2 = Some (chunks2, fin)"
    and "records (concat chunks2) = es1 @ es2"
  shows "handle_event parse provider (''data: '' @ payload) = ([], False)
       \<and> streamResponse parse r1 provider = streamResponse parse r2 provider"
proof -
  have h: "handle_event parse provider (''data: '' @ payload) = ([], False)"
    using assms(1,2)
    by (auto simp add: handle_event_def startsWith_data slice6_def emit_token_def)
  have "process_events parse provider (es1 @ (''data: '' @ payload) # es2)
        = process_events parse provider (es1 @ es2)"
    using h by (simp add: process_events_append split: prod.splits)
  then show ?thesis
    using h assms(3-6) by (simp add: streamResponse_canonical)
qed

lemma records_broken_stream:
  "records (concat [hello_record @ blank_line @ ''data: '' @ broken_payload,
                    blank_line @ world_record @ blank_line])
     = [hello_record] @ (''data: '' @ broken_payload) # [world_record]"
  by code_simp

lemma records_clean_stream:
  "records (concat [hello_record @ blank_line @ world_record @ blank_line])
     = [hello_record] @ [world_record]"
  by code_simp

lemma clean_stream_run:
  "streamResponse JSON_parse
     \<lparr>ok = True, status = 200,
      body = Some ([hello_record @ blank_line @ world_record @ blank_line], Closed)\<rparr> anthropic
   = ([Write_token (JStr ''Hello''), Write_token (JStr '' world''), End_response], None)"
  by code_simp

theorem decode_tolerance_witness:
  "JSON_parse broken_payload = None
   \<and> handle_event JSON_parse anthropic (''data: '' @ broken_payload) = ([], False)
   \<and> streamResponse JSON_parse
        \<lparr>ok = True, status = 200,
         body = Some ([hello_record @ blank_line @ ''data: '' @ broken_payload,
                       blank_line @ world_record @ blank_line], Closed)\<rparr> anthropic
     = ([Write_token (JStr ''Hello''), Write_token (JStr '' world''), End_response], None)"
proof -
  have p: "broken_payload \<noteq> ''[DONE]''" by code_simp
  have "handle_event JSON_parse anthropic (''data: '' @ broken_payload) = ([], False)
       \<and> streamResponse JSON_parse
            \<lparr>ok = True, status = 200,
             body = Some ([hello_record @ blank_line @ ''data: '' @ broken_payload,
                           blank_line @ world_record @ blank_line], Closed)\<rparr> anthropic
         = streamResponse JSON_parse
            \<lparr>ok = True, status = 200,
             body = Some ([hello_record @ blank_line @ world_record @ blank_line], Closed)\<rparr>
            anthropic"
    using parse_broken p records_broken_stream records_clean_stream
      decode_tolerance[of JSON_parse broken_payload anthropic
        "\<lparr>ok = True, status = 200,
          body = Some ([hello_record @ blank_line @ ''data: '' @ broken_payload,
                        blank_line @ world_record @ blank_line], Closed)\<rparr>"
        "[hello_record @ blank_line @ ''data: '' @ broken_payload,
          blank_line @ world_record @ blank_line]" Closed
        "[hello_record]" "[world_record]"
        "\<lparr>ok = True, status = 200,
          body = Some ([hello_record @ blank_line @ world_record @ blank_line], Closed)\<rparr>"
        "[hello_record @ blank_line @ world_record @ blank_line]"]
    by simp
  then show ?thesis using parse_broken clean_stream_run by simp
qed

text \<open>
  C7. Scenario A: with the OpenAI or LM Studio strategy, and a parser that reads the two
  JSON payloads as JSON does, the three records give the token \<^verbatim>\<open>Hi\<close>, the token
  \<^verbatim>\<open> there\<close>, the terminator and the end of the response, and nothing else, however the
  text is cut into chunks and however the reader would have ended.
\<close>

theorem scenario_A:
  assumes "parse hi_payload = Some (delta_content ''Hi'')"
    and "parse there_payload = Some (delta_content '' there'')"
    and "provider = openai \<or> provider = lmstudio"
    and "body resp = Some (chunks, fin)"
    and "concat chunks = scenario_A_text"
  shows "streamResponse parse resp provider =
           ([Write_token (JStr ''Hi''), Write_token (JStr '' there''), Write_done, End_response],
            None)"
proof -
  have "process_events parse provider (records scenario_A_text) =
          ([Write_token (JStr ''Hi''), Write_token (JStr '' there''), Write_done, End_response],
           True)"
    unfolding records_scenario_A using assms(1,2,3) payloads_not_sentinel
    by (auto simp add: handle_event_def startsWith_data slice6_def emit_token_def
          openai_token_delta_content)
  then show ?thesis
    using assms(4,5) by (simp add: streamResponse_canonical)
qed

theorem scenario_A_witness:
  "JSON_parse hi_payload = Some (delta_content ''Hi'')
   \<and> JSON_parse there_payload = Some (delta_content '' there'')
   \<and> concat [take 50 scenario_A_text, drop 50 scenario_A_text] = scenario_A_text
   \<and> streamResponse JSON_parse
        \<lparr>ok = True, status = 200,
         body = Some ([take 50 scenario_A_text, drop 50 scenario_A_text], Closed)\<rparr> openai
     = ([Write_token (JStr ''Hi''), Write_token (JStr '' there''), Write_done, End_response],
        None)"
  using parse_hi parse_there
    scenario_A[OF parse_hi parse_there, of openai
      "\<lparr>ok = True, status = 200,
        body = Some ([take 50 scenario_A_text, drop 50 scenario_A_text], Closed)\<rparr>"
      "[take 50 scenario_A_text, drop 50 scenario_A_text]" Closed]
  by simp

text \<open>
  C4 as stated fails: in scenario B the Anthropic stream is exhausted and the response is
  ended without the terminator record.
\<close>

theorem natural_exhaustion_no_terminator:
  "fst (streamResponse JSON_parse
          \<lparr>ok = True, status = 200, body = Some ([scenario_B_text], Closed)\<rparr> anthropic)
     = [Write_token (JStr ''Hello''), End_response]
   \<and> Write_done \<notin> set (fst (streamResponse JSON_parse
          \<lparr>ok = True, status = 200, body = Some ([scenario_B_text], Closed)\<rparr> anthropic))"
  by code_simp

text \<open>
  C4, amended. The terminator record is written exactly where the sentinel is read: when
  the provider is not Gemini and \<^verbatim>\<open>data: [DONE]\<close> is among the complete records, the
  writes are tokens, then the terminator, then the end of the response. Otherwise a
  stream that is exhausted gives tokens and the end of the response, with no terminator.
\<close>

theorem done_terminator:
  assumes "body resp = Some (chunks, fin)"
  shows "(provider \<noteq> gemini \<and> ''data: [DONE]'' \<in> set (records (concat chunks)) \<longrightarrow>
            (\<exists>ops. streamResponse parse resp provider = (ops @ [Write_done, End_response], None)
                   \<and> list_all is_token ops))
       \<and> (\<not> (provider \<noteq> gemini \<and> ''data: [DONE]'' \<in> set (records (concat chunks)))
            \<and> fin = Closed \<longrightarrow>
            (\<exists>ops. streamResponse parse resp provider = (ops @ [End_response], None)
                   \<and> list_all is_token ops))"
proof (intro conjI impI)
  assume "provider \<noteq> gemini \<and> ''data: [DONE]'' \<in> set (records (concat chunks))"
  then have "list_ex (sentinel provider) (records (concat chunks))"
    by (simp add: list_ex_sentinel)
  from process_events_sentinel[OF this, of parse]
  show "\<exists>ops. streamResponse parse resp provider = (ops @ [Write_done, End_response], None)
              \<and> list_all is_token ops"
    using assms by (auto simp add: streamResponse_canonical)
next
  assume a: "\<not> (provider \<noteq> gemini \<and> ''data: [DONE]'' \<in> set (records (concat chunks)))
             \<and> fin = Closed"
  then have "\<not> list_ex (sentinel provider) (records (concat chunks))"
    by (simp add: list_ex_sentinel)
  from process_events_no_sentinel[OF this, of parse]
  have "streamResponse parse resp provider
          = (fst (process_events parse provider (records (concat chunks))) @ [End_response], None)"
       "list_all is_token (fst (process_events parse provider (records (concat chunks))))"
    using assms a by (auto simp add: streamResponse_canonical split: prod.splits)
  then show "\<exists>ops. streamResponse parse resp provider = (ops @ [End_response], None)
              \<and> list_all is_token ops"
    by blast
qed

theorem done_terminator_witness:
  "(\<exists>ops. streamResponse JSON_parse
            \<lparr>ok = True, status = 200, body = Some ([scenario_A_text], Closed)\<rparr> openai
          = (ops @ [Write_done, End_response], None) \<and> list_all is_token ops)
   \<and> (\<exists>ops. streamResponse JSON_parse
            \<lparr>ok = True, status = 200, body = Some ([scenario_B_text], Closed)\<rparr> anthropic
          = (ops @ [End_response], None) \<and> list_all is_token ops)"
proof -
  have a: "''data: [DONE]'' \<in> set (records (concat [scenario_A_text]))"
    using records_scenario_A by simp
  have b: "''data: [DONE]'' \<notin> set (records (concat [scenario_B_text]))"
    by code_simp
  show ?thesis
    using a b
      done_terminator[of "\<lparr>ok = True, status = 200, body = Some ([scenario_A_text], Closed)\<rparr>"
        "[scenario_A_text]" Closed openai JSON_parse]
      done_terminator[of "\<lparr>ok = True, status = 200, body = Some ([scenario_B_text], Closed)\<rparr>"
        "[scenario_B_text]" Closed anthropic JSON_parse]
    by simp
qed

section \<open>Properties of the request handler\<close>

text \<open>
  A reader that reports \<^verbatim>\<open>done\<close> is the natural exhaustion of the stream, with or without
  a sentinel before it: the response is ended and there is no error.
\<close>

lemma exhaustion_is_completion:
  "(case new_ConfigManager (Some ''sk-test'') None None of
      (st, configManager) \<Rightarrow>
        snd (chat_stream JSON_parse (fetch_ok [''data: '' @ hi_payload @ blank_line] Closed)
               st configManager (sample_request openai None)))
     = [Write_head 200, Write_token (JStr ''Hi''), End_response]"
  by code_simp

text \<open>
  C3. An abrupt close of the transport is a read that rejects. For every provider, when
  a read of the provider's body rejects before the sentinel was read, the handler's
  output is the head, the tokens of the complete records, an error record with the
  message of the rejection, and the end of the response: the sequence ends with the
  error, never with a plain completion.
\<close>

theorem abort_yields_error:
  assumes "c_title req \<noteq> []" "c_url req \<noteq> []" "c_text req \<noteq> []" "c_question req \<noteq> []"
    and "provider_entry st (config configManager) (request_provider configManager req)
           = Some providerConfig"
    and "callProvider fetch (request_provider configManager req) providerConfig
           (build_messages providerConfig req) = (calls, Inr resp)"
    and "ok resp"
    and "body resp = Some (chunks, Aborted e)"
    and "\<not> (request_provider configManager req \<noteq> gemini
            \<and> ''data: [DONE]'' \<in> set (records (concat chunks)))"
  shows "\<exists>ops. chat_stream parse fetch st configManager req
                 = (calls, Write_head 200 # ops @ [Write_error (message e), End_response])
              \<and> list_all is_token ops"
proof -
  let ?p = "request_provider configManager req"
  have "\<not> list_ex (sentinel ?p) (records (concat chunks))"
    using assms(9) by (simp add: list_ex_sentinel)
  from process_events_no_sentinel[OF this, of parse]
  have s: "streamResponse parse resp ?p
          = (fst (process_events parse ?p (records (concat chunks))), Some e)"
       and t: "list_all is_token (fst (process_events parse ?p (records (concat chunks))))"
    using assms(8) by (auto simp add: streamResponse_canonical split: prod.splits)
  have "chat_stream parse fetch st configManager req
          = (calls, Write_head 200 # fst (process_events parse ?p (records (concat chunks)))
                      @ [Write_error (message e), End_response])"
    using assms(1-7) s by (simp add: chat_stream_def Let_def)
  then show ?thesis using t by blast
qed

lemma gemini_sample_call:
  "callProvider (fetch_ok cs fin) gemini (default_gemini (Some ''g-key'')) ms
     = (fst (callProvider (fetch_ok cs fin) gemini (default_gemini (Some ''g-key'')) ms),
        Inr \<lparr>ok = True, status = 200, body = Some (cs, fin)\<rparr>)"
  by (simp add: callGemini_def has_apiKey_def default_gemini_def env_or_empty_def fetch_ok_def
        Let_def)

theorem abort_yields_error_witness:
  "\<exists>ops. snd (chat_stream JSON_parse
                 (fetch_ok [scenario_C_text] (Aborted (Error ''terminated'')))
                 (fst (new_ConfigManager None None (Some ''g-key'')))
                 (snd (new_ConfigManager None None (Some ''g-key'')))
                 (sample_request gemini None))
           = Write_head 200 # ops @ [Write_error ''terminated'', End_response]
        \<and> list_all is_token ops"
proof -
  let ?st = "fst (new_ConfigManager None None (Some ''g-key''))"
  let ?m = "snd (new_ConfigManager None None (Some ''g-key''))"
  let ?req = "sample_request gemini None"
  let ?fetch = "fetch_ok [scenario_C_text] (Aborted (Error ''terminated''))"
  let ?cfg = "default_gemini (Some ''g-key'')"
  have p: "request_provider ?m ?req = gemini"
    by (simp add: request_provider_def sample_request_def)
  have f: "c_title ?req \<noteq> []" "c_url ?req \<noteq> []" "c_text ?req \<noteq> []" "c_question ?req \<noteq> []"
    by (simp_all add: sample_request_def)
  have e: "provider_entry ?st (config ?m) (request_provider ?m ?req) = Some ?cfg"
    unfolding p by (simp add: provider_entry_def new_ConfigManager_def Let_def)
  have c: "callProvider ?fetch (request_provider ?m ?req) ?cfg (build_messages ?cfg ?req)
             = (fst (callProvider ?fetch gemini ?cfg (build_messages ?cfg ?req)),
                Inr \<lparr>ok = True, status = 200,
                     body = Some ([scenario_C_text], Aborted (Error ''terminated''))\<rparr>)"
    unfolding p by (rule gemini_sample_call)
  have n: "\<not> (request_provider ?m ?req \<noteq> gemini
              \<and> ''data: [DONE]'' \<in> set (records (concat [scenario_C_text])))"
    unfolding p by simp
  from abort_yields_error[OF f e c _ _ n, where parse = JSON_parse]
  show ?thesis by auto
qed

text \<open>Scenario C: the Gemini record, then the transport fails.\<close>

lemma abort_sample_run:
  "snd (chat_stream JSON_parse
          (fetch_ok [scenario_C_text] (Aborted (Error ''terminated'')))
          (fst (new_ConfigManager None None (Some ''g-key'')))
          (snd (new_ConfigManager None None (Some ''g-key'')))
          (sample_request gemini None))
     = [Write_head 200, Write_token (JStr ''OK''), Write_error ''terminated'', End_response]"
  by code_simp

section \<open>Properties of the provider adapters\<close>

text \<open>
  C5. With an absent or empty \<^verbatim>\<open>apiKey\<close>, the OpenAI, Anthropic and Gemini adapters throw
  their configuration error and send no request. The LM Studio adapter, whatever its
  configuration, sends one request whose only header is the content type.
\<close>

theorem missing_credential:
  assumes "apiKey cfg = None \<or> apiKey cfg = Some []"
  shows "callProvider fetch openai cfg messages
           = ([], Inl (Error ''OpenAI API key not configured''))
       \<and> callProvider fetch anthropic cfg messages
           = ([], Inl (Error ''Anthropic API key not configured''))
       \<and> callProvider fetch gemini cfg messages
           = ([], Inl (Error ''Gemini API key not configured''))
       \<and> (\<exists>rq. callProvider fetch lmstudio cfg' messages = ([rq], fetch rq)
               \<and> rq_headers rq = [(''Content-Type'', ''application/json'')])"
proof -
  have k: "\<not> has_apiKey cfg"
    using assms by (auto simp add: has_apiKey_def)
  show ?thesis
    using k by (simp add: callOpenAI_def callAnthropic_def callGemini_def callLMStudio_def Let_def)
qed

theorem missing_credential_witness:
  "apiKey (default_openai None) = Some []
   \<and> callProvider (fetch_ok [] Closed) openai (default_openai None) sample_messages
       = ([], Inl (Error ''OpenAI API key not configured''))
   \<and> callProvider (fetch_ok [] Closed) anthropic (default_openai None) sample_messages
       = ([], Inl (Error ''Anthropic API key not configured''))
   \<and> callProvider (fetch_ok [] Closed) gemini (default_openai None) sample_messages
       = ([], Inl (Error ''Gemini API key not configured''))
   \<and> (\<exists>rq. callProvider (fetch_ok [] Closed) lmstudio default_lmstudio sample_messages
              = ([rq], fetch_ok [] Closed rq)
           \<and> rq_headers rq = [(''Content-Type'', ''application/json'')])"
proof -
  have a: "apiKey (default_openai None) = Some []"
    by (simp add: default_openai_def env_or_empty_def)
  then have "apiKey (default_openai None) = None \<or> apiKey (default_openai None) = Some []"
    by simp
  from missing_credential[OF this, of "fetch_ok [] Closed" sample_messages default_lmstudio] a
  show ?thesis by simp
qed

text \<open>
  C10. With a key configured, the Gemini adapter sends one request whose contents have one
  entry per message, in order: the role is \<^verbatim>\<open>model\<close> exactly for an assistant message and
  \<^verbatim>\<open>user\<close> for every other one (a system message too), and the parts are the one text of
  the message. The body has no other place for a system message.
\<close>

theorem gemini_role_mapping:
  assumes "apiKey cfg = Some k" and "k \<noteq> []"
  shows "\<exists>rq gb. callGemini fetch cfg messages = ([rq], fetch rq)
           \<and> rq_body rq = Gemini_body gb
           \<and> length (gb_contents gb) = length messages
           \<and> (\<forall>i < length messages.
                 (g_role (gb_contents gb ! i) = ''model'' \<longleftrightarrow> role (messages ! i) = Assistant)
               \<and> (g_role (gb_contents gb ! i) = ''user'' \<longleftrightarrow> role (messages ! i) \<noteq> Assistant)
               \<and> g_parts (gb_contents gb ! i) = [content (messages ! i)])"
proof -
  have "has_apiKey cfg" using assms by (simp add: has_apiKey_def)
  then show ?thesis by (simp add: callGemini_def Let_def)
qed

theorem gemini_role_mapping_witness:
  "apiKey (default_gemini (Some ''g-key'')) = Some ''g-key''
   \<and> (\<exists>rq gb. callGemini (fetch_ok [] Closed) (default_gemini (Some ''g-key'')) sample_messages
                 = ([rq], fetch_ok [] Closed rq)
           \<and> rq_body rq = Gemini_body gb
           \<and> map g_role (gb_contents gb) = [''user'', ''user'', ''model''])"
proof -
  have a: "apiKey (default_gemini (Some ''g-key'')) = Some ''g-key''"
    by (simp add: default_gemini_def env_or_empty_def)
  have b: "''g-key'' \<noteq> []" by simp
  from gemini_role_mapping[OF a b, of "fetch_ok [] Closed" sample_messages]
  obtain rq gb where
    c: "callGemini (fetch_ok [] Closed) (default_gemini (Some ''g-key'')) sample_messages
          = ([rq], fetch_ok [] Closed rq)"
      "rq_body rq = Gemini_body gb"
    and l: "length (gb_contents gb) = length sample_messages"
    and r: "\<forall>i < length sample_messages.
              (g_role (gb_contents gb ! i) = ''model'' \<longleftrightarrow> role (sample_messages ! i) = Assistant)
            \<and> (g_role (gb_contents gb ! i) = ''user'' \<longleftrightarrow> role (sample_messages ! i) \<noteq> Assistant)
            \<and> g_parts (gb_contents gb ! i) = [content (sample_messages ! i)]"
    by blast
  have n: "length sample_messages = 3" by (simp add: sample_messages_def)
  then have "length (gb_contents gb) = Suc (Suc (Suc 0))" using l by simp
  then obtain x y z where xs: "gb_contents gb = [x, y, z]"
    by (auto simp add: length_Suc_conv)
  have "g_role (gb_contents gb ! 0) = ''user''"
    using r n by (simp add: sample_messages_def)
  moreover have "g_role (gb_contents gb ! 1) = ''user''"
    using r[rule_format, of 1] n by (simp add: sample_messages_def)
  moreover have "g_role (gb_contents gb ! 2) = ''model''"
    using r[rule_format, of 2] n by (simp add: sample_messages_def)
  ultimately have m: "map g_role (gb_contents gb) = [''user'', ''user'', ''model'']"
    unfolding xs by simp
  have "\<exists>rq gb. callGemini (fetch_ok [] Closed) (default_gemini (Some ''g-key'')) sample_messages
                 = ([rq], fetch_ok [] Closed rq)
           \<and> rq_body rq = Gemini_body gb
           \<and> map g_role (gb_contents gb) = [''user'', ''user'', ''model'']"
    using c m by (intro exI[of _ rq] exI[of _ gb] conjI)
  with a show ?thesis by (rule conjI)
qed

section \<open>Where the code departs from its documentation\<close>

text \<open>
  C2. The handler receives the history and does not forward it: for a request with two
  earlier turns, the request sent to the provider holds the system prompt and the
  combined question, and nothing of the history.
\<close>

theorem history_not_forwarded:
  "(case new_ConfigManager (Some ''sk-test'') None None of
      (st, configManager) \<Rightarrow>
        map rq_body
          (fst (chat_stream JSON_parse (fetch_ok [scenario_A_text] Closed) st configManager
                  (sample_request openai (Some sample_history)))))
     = [Chat_body
          \<lparr>cb_model = ''gpt-4o-mini'',
           cb_messages =
             [\<lparr>role = System, content = default_systemPrompt\<rparr>,
              \<lparr>role = User,
               content = ''Current page: '' @ [CHR 0x22] @ ''Docs'' @ [CHR 0x22]
                         @ '' (https://example.com)'' @ blank_line @ ''Some page text.''
                         @ blank_line @ ''Question: What is this?''\<rparr>],
           cb_stream = True, cb_temperature = Some (1 / 10), cb_max_tokens = Some 1000\<rparr>]"
  by code_simp

text \<open>
  C9. \<^verbatim>\<open>getSafeConfig\<close> writes the mask into the stored configuration: the copy it makes
  shares the providers object with \<^verbatim>\<open>this.config\<close>. With an OpenAI key configured, the
  stored key is the key before the call and \<^verbatim>\<open>***\<close> after it.
\<close>

theorem getSafeConfig_overwrites_stored_key:
  "(case new_ConfigManager (Some ''sk-test'') None None of
      (st, this) \<Rightarrow>
        (map_option apiKey (provider_entry st (config this) openai),
         map_option apiKey (provider_entry (fst (getSafeConfig st this)) (config this) openai)))
     = (Some (Some ''sk-test''), Some (Some ''***''))"
  by code_simp

end
